theory Spec2Isabelle
  imports Complex_Main
begin

section \<open>JavaScript values used by the controllers\<close>

text \<open>
  A field of a JSON request body or of a stored document is either missing
  (\<open>undefined\<close>), \<open>null\<close>, or holds a value. Numbers are modelled as exact reals: the
  development is about the control flow of the calculator and about rounding to two
  decimals, not about binary floating point.
\<close>

datatype 'a js = Undefined | Null | Val 'a

type_synonym jsnum = "real js"

abbreviation Num :: "real \<Rightarrow> jsnum" where
  "Num \<equiv> Val"

text \<open>\<open>x || 0\<close> on a numeric field: \<open>undefined\<close>, \<open>null\<close> and \<open>0\<close> all give \<open>0\<close>.\<close>

fun or_zero :: "jsnum \<Rightarrow> real" where
  "or_zero (Val x) = x"
| "or_zero Undefined = 0"
| "or_zero Null = 0"

text \<open>The test \<open>v !== null && v !== undefined\<close>.\<close>

fun present :: "'a js \<Rightarrow> bool" where
  "present (Val x) = True"
| "present Undefined = False"
| "present Null = False"

text \<open>The test \<open>v !== null\<close> alone: \<open>undefined\<close> passes it.\<close>

fun not_null :: "'a js \<Rightarrow> bool" where
  "not_null Null = False"
| "not_null Undefined = True"
| "not_null (Val x) = True"

section \<open>quotationController: the money and tax calculator\<close>

text \<open>
  \<open>formatCurrency(amount) = parseFloat(Number(amount || 0).toFixed(2))\<close>: the nearest
  multiple of 0.01, a tie going away from zero (\<open>toFixed\<close> picks the larger magnitude).
\<close>

definition formatCurrency :: "real \<Rightarrow> real" where
  "formatCurrency amount =
     (if 0 \<le> amount then of_int \<lfloor>amount * 100 + 1 / 2\<rfloor> / 100
      else - (of_int \<lfloor>- amount * 100 + 1 / 2\<rfloor> / 100))"

record item =
  quantity :: jsnum
  rate :: jsnum
  gstPercentage :: jsnum

text \<open>\<open>items.reduce((sum, i) => sum + (i.quantity || 0) * (i.rate || 0), 0)\<close>\<close>

definition calculateSubTotal :: "item list \<Rightarrow> real" where
  "calculateSubTotal items =
     foldl (\<lambda>sum i. sum + or_zero (quantity i) * or_zero (rate i)) 0 items"

text \<open>The first \<open>reduce\<close> of \<open>calculateTotalGst\<close>: the unrounded tax of all items.\<close>

definition totalCalculatedGst :: "item list \<Rightarrow> real" where
  "totalCalculatedGst items =
     foldl (\<lambda>sum i.
        let itemTotal = or_zero (quantity i) * or_zero (rate i);
            gstRate = or_zero (gstPercentage i) / 100
        in sum + itemTotal * gstRate) 0 items"

record gst_breakdown =
  totalGst :: real
  sgst :: real
  cgst :: real
  igst :: real

text \<open>The request's \<open>gstType\<close> is a string, when the field holds one.\<close>

definition calculateTotalGst :: "item list \<Rightarrow> string js \<Rightarrow> gst_breakdown" where
  "calculateTotalGst items gstType =
     (let raw = totalCalculatedGst items;
          (s, c, i) =
            (if gstType = Val ''intrastate'' then (raw / 2, raw / 2, 0)
             else if gstType = Val ''interstate'' then (0, 0, raw)
             else (0, 0, 0))
      in \<lparr> totalGst = formatCurrency raw, sgst = formatCurrency s,
           cgst = formatCurrency c, igst = formatCurrency i \<rparr>)"

text \<open>
  \<open>calculateTotal\<close>, branch by branch: \<open>taxToUse\<close> is its local variable. The first
  branch is taken exactly when \<open>manualGstAmount\<close> holds a number. The second branch tests
  the two percentages against \<open>null\<close> only, where the other tests exclude \<open>null\<close> and
  \<open>undefined\<close>; inside it each percentage is tested against both again.
\<close>

definition percentOf :: "real \<Rightarrow> jsnum \<Rightarrow> real \<Rightarrow> real" where
  "percentOf subTotal p fallback =
     (case p of Val q \<Rightarrow> subTotal * (q / 100) | Null \<Rightarrow> fallback | Undefined \<Rightarrow> fallback)"

definition taxToUse ::
  "real \<Rightarrow> gst_breakdown \<Rightarrow> string js \<Rightarrow> jsnum \<Rightarrow> jsnum \<Rightarrow> jsnum \<Rightarrow> jsnum \<Rightarrow> real" where
  "taxToUse subTotal bd gstType manualGstAmount manualSgstPercentage manualCgstPercentage
       manualIgstPercentage =
     (case manualGstAmount of
        Val g \<Rightarrow> g
      | _ \<Rightarrow>
        if gstType = Val ''intrastate''
           \<and> (not_null manualSgstPercentage \<or> not_null manualCgstPercentage) then
          (let manualSgstValue = percentOf subTotal manualSgstPercentage (sgst bd);
               manualCgstValue = percentOf subTotal manualCgstPercentage (cgst bd)
           in manualSgstValue + manualCgstValue)
        else if gstType = Val ''interstate'' \<and> present manualIgstPercentage then
          percentOf subTotal manualIgstPercentage 0
        else totalGst bd)"

definition calculateTotal ::
  "real \<Rightarrow> gst_breakdown \<Rightarrow> string js \<Rightarrow> jsnum \<Rightarrow> jsnum \<Rightarrow> jsnum \<Rightarrow> jsnum \<Rightarrow> real" where
  "calculateTotal subTotal bd gstType manualGstAmount manualSgstPercentage
       manualCgstPercentage manualIgstPercentage =
     formatCurrency (subTotal + taxToUse subTotal bd gstType manualGstAmount
        manualSgstPercentage manualCgstPercentage manualIgstPercentage)"

text \<open>
  The total that \<open>create\<close> and \<open>update\<close> store for an item list: sub-total, breakdown and
  total computed one after the other, as both handlers do.
\<close>

definition quotationTotal :: "item list \<Rightarrow> string js \<Rightarrow> jsnum \<Rightarrow> jsnum \<Rightarrow> jsnum \<Rightarrow> jsnum \<Rightarrow> real" where
  "quotationTotal items gstType mGst mSgst mCgst mIgst =
     calculateTotal (calculateSubTotal items) (calculateTotalGst items gstType) gstType
       mGst mSgst mCgst mIgst"

section \<open>quotationController: quotation numbers\<close>

text \<open>
  Strings are lists of characters. \<open>s.split(sep)\<close> for a one-character separator: the
  pieces between the separators, at least one piece; \<open>pop()\<close> takes the last.
\<close>

fun split :: "char \<Rightarrow> string \<Rightarrow> string list" where
  "split sep [] = [[]]"
| "split sep (c # cs) =
     (if c = sep then [] # split sep cs
      else (case split sep cs of [] \<Rightarrow> [[c]] | w # ws \<Rightarrow> (c # w) # ws))"

definition pop :: "string list \<Rightarrow> string" where
  "pop pieces = last pieces"

definition is_digit :: "char \<Rightarrow> bool" where
  "is_digit c = (48 \<le> (of_char c :: nat) \<and> (of_char c :: nat) \<le> 57)"

definition digit_value :: "char \<Rightarrow> nat" where
  "digit_value c = of_char c - 48"

definition is_hex_digit :: "char \<Rightarrow> bool" where
  "is_hex_digit c =
     (is_digit c \<or> (65 \<le> (of_char c :: nat) \<and> (of_char c :: nat) \<le> 70)
        \<or> (97 \<le> (of_char c :: nat) \<and> (of_char c :: nat) \<le> 102))"

definition hex_value :: "char \<Rightarrow> nat" where
  "hex_value c =
     (if is_digit c then digit_value c
      else if (of_char c :: nat) \<le> 70 then of_char c - 55 else of_char c - 87)"

text \<open>The white space \<open>parseInt\<close> skips, as far as one-byte characters go.\<close>

definition is_space :: "char \<Rightarrow> bool" where
  "is_space c = ((of_char c :: nat) \<in> {9, 10, 11, 12, 13, 32})"

text \<open>The value of a digit string in a radix, most significant digit first.\<close>

definition radix_value :: "nat \<Rightarrow> (char \<Rightarrow> nat) \<Rightarrow> string \<Rightarrow> nat" where
  "radix_value r dv ds = foldl (\<lambda>acc c. r * acc + dv c) 0 ds"

text \<open>
  \<open>parseInt(s)\<close> with no radix: skip white space, read a sign, read \<open>0x\<close> or \<open>0X\<close> as
  the mark of radix 16, then take the longest run of digits of the radix; \<open>None\<close> is
  \<open>NaN\<close> (no digit at all).
\<close>

definition parseInt :: "string \<Rightarrow> int option" where
  "parseInt s =
     (let s1 = dropWhile is_space s;
          (neg, s2) =
            (case s1 of
               c # cs \<Rightarrow> if c = CHR ''-'' then (True, cs)
                         else if c = CHR ''+'' then (False, cs) else (False, s1)
             | [] \<Rightarrow> (False, s1));
          (hex, s3) =
            (case s2 of
               a # b # cs \<Rightarrow>
                 if a = CHR ''0'' \<and> (b = CHR ''x'' \<or> b = CHR ''X'') then (True, cs)
                 else (False, s2)
             | _ \<Rightarrow> (False, s2));
          z = (if hex then takeWhile is_hex_digit s3 else takeWhile is_digit s3);
          n = (if hex then radix_value 16 hex_value z else radix_value 10 digit_value z)
      in if z = [] then None else Some (if neg then - int n else int n))"

text \<open>\<open>n.toString()\<close> for an integer, and for \<open>NaN\<close>.\<close>

fun nat_toString :: "nat \<Rightarrow> string" where
  "nat_toString n =
     (if n < 10 then [char_of (48 + n)]
      else nat_toString (n div 10) @ [char_of (48 + n mod 10)])"

declare nat_toString.simps [simp del]

definition toString :: "int option \<Rightarrow> string" where
  "toString v =
     (case v of
        None \<Rightarrow> ''NaN''
      | Some i \<Rightarrow> if i < 0 then CHR ''-'' # nat_toString (nat (- i)) else nat_toString (nat i))"

text \<open>\<open>s.padStart(n, c)\<close> for a one-character filler.\<close>

definition padStart :: "nat \<Rightarrow> char \<Rightarrow> string \<Rightarrow> string" where
  "padStart n c s = replicate (n - length s) c @ s"

text \<open>JavaScript truthiness of a string field: missing, \<open>null\<close> and \<open>''\<close> are falsy.\<close>

fun truthy :: "string js \<Rightarrow> bool" where
  "truthy (Val s) = (s \<noteq> [])"
| "truthy Undefined = False"
| "truthy Null = False"

text \<open>\<open>a || b\<close> on string fields.\<close>

definition or_else :: "string js \<Rightarrow> string js \<Rightarrow> string js" where
  "or_else a b = (if truthy a then a else b)"

definition or_default :: "string js \<Rightarrow> string \<Rightarrow> string" where
  "or_default a d = (case a of Val s \<Rightarrow> if s \<noteq> [] then s else d | _ \<Rightarrow> d)"

text \<open>Documents are identified by their \<open>_id\<close>; times are milliseconds.\<close>

datatype oid = ObjectId nat

record quotation_note =
  note_text :: "string js"
  note_author :: string
  note_timestamp :: nat

record follow_up =
  fu_date :: "string js"
  fu_note :: "string js"
  fu_status :: "string js"
  fu_addedBy :: "oid js"
  fu_timestamp :: nat

record quotation =
  q_id :: oid
  quotationNumber :: "string js"
  q_gstType :: "string js"
  q_items :: "item list"
  subTotal :: real
  gstBreakdown :: gst_breakdown
  total :: real
  q_manualGstAmount :: jsnum
  q_manualSgstPercentage :: jsnum
  q_manualCgstPercentage :: jsnum
  q_manualIgstPercentage :: jsnum
  q_notes :: "quotation_note list"
  q_followUps :: "follow_up list"
  q_status :: string
  createdAt :: nat
  updatedAt :: nat

text \<open>
  \<open>Quotation.findOne().sort({ createdAt: -1 })\<close>: a quotation whose \<open>createdAt\<close> is
  greatest, \<open>None\<close> for an empty collection. Among equal times the one stored last is
  taken (the store leaves that choice open).
\<close>

fun findLast :: "quotation list \<Rightarrow> quotation option" where
  "findLast [] = None"
| "findLast (q # qs) =
     (case findLast qs of
        None \<Rightarrow> Some q
      | Some r \<Rightarrow> if createdAt r < createdAt q then Some q else Some r)"

text \<open>
  Lines 497 to 507 of \<open>create\<close>: the number the caller sent if it is truthy, else the
  successor of the last quotation's number, else \<open>Q-00001\<close>. \<open>lastNum + 1\<close> keeps
  \<open>NaN\<close>.
\<close>

definition nextNumber :: "string \<Rightarrow> string" where
  "nextNumber number =
     (let lastNum = parseInt (pop (split CHR ''-'' number))
      in ''Q-'' @ padStart 5 CHR ''0'' (toString (map_option (\<lambda>n. n + 1) lastNum)))"

definition finalQuotationNumber :: "string js \<Rightarrow> quotation option \<Rightarrow> string" where
  "finalQuotationNumber sent lastQuotation =
     (if truthy sent then or_default sent []
      else case lastQuotation of
             None \<Rightarrow> ''Q-00001''
           | Some lq \<Rightarrow>
               if truthy (quotationNumber lq)
               then nextNumber (or_default (quotationNumber lq) [])
               else ''Q-00001'')"

text \<open>The fields of the body of \<open>POST /quotations\<close> that the numbering, the calculator
  and the notes read.\<close>

record note_in =
  in_text :: "string js"
  in_author :: "string js"
  in_timestamp :: "nat js"

record create_body =
  c_quotationNumber :: "string js"
  c_items :: "item list js"
  c_gstType :: "string js"
  c_notes :: "note_in list js"
  c_status :: "string js"
  c_manualGstAmount :: jsnum
  c_manualSgstPercentage :: jsnum
  c_manualCgstPercentage :: jsnum
  c_manualIgstPercentage :: jsnum

text \<open>\<open>note.timestamp || new Date()\<close>: a missing, \<open>null\<close> or zero time is falsy.\<close>

definition time_or_now :: "nat js \<Rightarrow> nat \<Rightarrow> nat" where
  "time_or_now t now = (case t of Val n \<Rightarrow> if n \<noteq> 0 then n else now | _ \<Rightarrow> now)"

text \<open>\<open>note.author || req.user?.name || 'System'\<close>\<close>

definition author_of :: "string js \<Rightarrow> string js \<Rightarrow> string" where
  "author_of a userName = or_default (or_else a userName) ''System''"

text \<open>
  \<open>create\<close>. \<open>newId\<close> is the \<open>_id\<close> the store gives the document, \<open>now\<close> the clock,
  \<open>userName\<close> is \<open>req.user?.name\<close>. The result is the HTTP status and the collection
  afterwards. \<open>items.reduce\<close> throws when \<open>items\<close> is missing, which the handler answers
  with 500; a number already in use is the duplicate key error it answers with 400.
  The customer fields copied from the business account play no part here and are left
  out.
\<close>

definition create :: "nat \<Rightarrow> string js \<Rightarrow> oid \<Rightarrow> quotation list \<Rightarrow> create_body \<Rightarrow> nat \<times> quotation list" where
  "create now userName newId qs body =
     (let number = finalQuotationNumber (c_quotationNumber body) (findLast qs) in
      case c_items body of
        Val its \<Rightarrow>
          (let sub = calculateSubTotal its;
               bd = calculateTotalGst its (c_gstType body);
               tot = calculateTotal sub bd (c_gstType body) (c_manualGstAmount body)
                       (c_manualSgstPercentage body) (c_manualCgstPercentage body)
                       (c_manualIgstPercentage body);
               newQuotation =
                 \<lparr> q_id = newId, quotationNumber = Val number, q_gstType = c_gstType body,
                   q_items = its, subTotal = sub, gstBreakdown = bd, total = tot,
                   q_manualGstAmount = c_manualGstAmount body,
                   q_manualSgstPercentage = c_manualSgstPercentage body,
                   q_manualCgstPercentage = c_manualCgstPercentage body,
                   q_manualIgstPercentage = c_manualIgstPercentage body,
                   q_notes =
                     (case c_notes body of
                        Val ns \<Rightarrow>
                          map (\<lambda>n. \<lparr> note_text = in_text n,
                                      note_author = author_of (in_author n) userName,
                                      note_timestamp = time_or_now (in_timestamp n) now \<rparr>) ns
                      | _ \<Rightarrow> []),
                   q_followUps = [],
                   q_status = or_default (c_status body) ''Draft'',
                   createdAt = now, updatedAt = now \<rparr>
           in if list_ex (\<lambda>q. quotationNumber q = Val number) qs then (400, qs)
              else (201, qs @ [newQuotation]))
      | _ \<Rightarrow> (500, qs))"

text \<open>The fields of the body of \<open>PUT /quotations/:id\<close> that \<open>update\<close> treats specially,
  and \<open>status\<close>, when it holds a string, as the example of a field it copies as it
  is.\<close>

record update_body =
  u_notes :: "note_in list js"
  u_items :: "item list js"
  u_gstType :: "string js"
  u_manualGstAmount :: jsnum
  u_manualSgstPercentage :: jsnum
  u_manualCgstPercentage :: jsnum
  u_manualIgstPercentage :: jsnum
  u_status :: "string js"

definition findQuotation :: "quotation list \<Rightarrow> oid \<Rightarrow> quotation option" where
  "findQuotation qs i = find (\<lambda>q. q_id q = i) qs"

text \<open>\<open>quotation.save()\<close>: the stored document of that \<open>_id\<close> is replaced.\<close>

definition saveQuotation :: "quotation list \<Rightarrow> quotation \<Rightarrow> quotation list" where
  "saveQuotation qs q = map (\<lambda>r. if q_id r = q_id q then q else r) qs"

text \<open>
  Lines 577 to 589: when \<open>updateData.notes\<close> is a non-empty array, every incoming note
  with a truthy \<open>text\<close> is pushed, in order, with \<open>text\<close>, \<open>author\<close> and \<open>timestamp\<close>
  only.
\<close>

definition mergeNotes :: "nat \<Rightarrow> string js \<Rightarrow> quotation_note list \<Rightarrow> note_in list js \<Rightarrow> quotation_note list" where
  "mergeNotes now userName old incoming =
     (case incoming of
        Val ns \<Rightarrow>
          old @ map (\<lambda>n. \<lparr> note_text = in_text n,
                            note_author = author_of (in_author n) userName,
                            note_timestamp = time_or_now (in_timestamp n) now \<rparr>)
                  (filter (\<lambda>n. truthy (in_text n)) ns)
      | _ \<Rightarrow> old)"

text \<open>\<open>updateData.x !== undefined\<close>, and \<open>changed ? updateData.x : quotation.x\<close>.\<close>

definition changed :: "'a js \<Rightarrow> bool" where
  "changed sent = (sent \<noteq> Undefined)"

definition toUse :: "'a js \<Rightarrow> 'a js \<Rightarrow> 'a js" where
  "toUse sent stored = (if changed sent then sent else stored)"

text \<open>
  \<open>update\<close>: not found gives 404; the notes are merged; if any calculator input is in
  the body, sub-total, breakdown and total are recomputed from the sent-or-stored
  inputs (\<open>items: null\<close> makes \<open>reduce\<close> throw, answered with 500 and nothing saved);
  the remaining keys are copied (for the calculator's own keys that repeats the
  assignment just made); the document is saved.
\<close>

definition update :: "nat \<Rightarrow> string js \<Rightarrow> quotation list \<Rightarrow> oid \<Rightarrow> update_body \<Rightarrow> nat \<times> quotation list" where
  "update now userName qs i body =
     (case findQuotation qs i of
        None \<Rightarrow> (404, qs)
      | Some q \<Rightarrow>
        (let q1 = q\<lparr> q_notes := mergeNotes now userName (q_notes q) (u_notes body) \<rparr>;
             recalc = (changed (u_items body) \<or> changed (u_gstType body)
                       \<or> changed (u_manualGstAmount body)
                       \<or> changed (u_manualSgstPercentage body)
                       \<or> changed (u_manualCgstPercentage body)
                       \<or> changed (u_manualIgstPercentage body));
             itemsToUse = toUse (u_items body) (Val (q_items q1));
             gstTypeToUse = toUse (u_gstType body) (q_gstType q1);
             mGst = toUse (u_manualGstAmount body) (q_manualGstAmount q1);
             mSgst = toUse (u_manualSgstPercentage body) (q_manualSgstPercentage q1);
             mCgst = toUse (u_manualCgstPercentage body) (q_manualCgstPercentage q1);
             mIgst = toUse (u_manualIgstPercentage body) (q_manualIgstPercentage q1)
         in case (if recalc then itemsToUse else Val (q_items q1)) of
              Val its \<Rightarrow>
                (let q2 = (if recalc then
                             q1\<lparr> subTotal := calculateSubTotal its,
                                 gstBreakdown := calculateTotalGst its gstTypeToUse,
                                 total := calculateTotal (calculateSubTotal its)
                                            (calculateTotalGst its gstTypeToUse) gstTypeToUse
                                            mGst mSgst mCgst mIgst,
                                 q_items := its, q_gstType := gstTypeToUse,
                                 q_manualGstAmount := mGst, q_manualSgstPercentage := mSgst,
                                 q_manualCgstPercentage := mCgst,
                                 q_manualIgstPercentage := mIgst \<rparr>
                           else q1);
                     q3 = (case u_status body of
                             Val s \<Rightarrow> q2\<lparr> q_status := s \<rparr> | _ \<Rightarrow> q2);
                     q4 = q3\<lparr> updatedAt := now \<rparr>
                 in (200, saveQuotation qs q4))
            | _ \<Rightarrow> (500, qs)))"

text \<open>
  Follow-ups are addressed by position. \<open>followUps[index]\<close> is \<open>undefined\<close> at and
  beyond the length, which \<open>!\<close> turns into the 404 answer; a stored follow-up is an
  object and so truthy. The route parameter is taken to be the numeral of a position.
\<close>

definition elementAt :: "'a list \<Rightarrow> nat \<Rightarrow> 'a option" where
  "elementAt xs index = (if index < length xs then Some (xs ! index) else None)"

text \<open>\<open>xs.splice(index, 1)\<close> for a position inside the array.\<close>

definition splice1 :: "'a list \<Rightarrow> nat \<Rightarrow> 'a list" where
  "splice1 xs index = take index xs @ drop (Suc index) xs"

definition updateFollowUp ::
  "quotation list \<Rightarrow> oid \<Rightarrow> nat \<Rightarrow> string js \<Rightarrow> string js \<Rightarrow> string js \<Rightarrow> nat \<times> quotation list" where
  "updateFollowUp qs i index date note status =
     (case findQuotation qs i of
        None \<Rightarrow> (404, qs)
      | Some q \<Rightarrow>
        (case elementAt (q_followUps q) index of
           None \<Rightarrow> (404, qs)
         | Some fu \<Rightarrow>
           (let fu' = fu\<lparr> fu_date := date, fu_note := note,
                           fu_status := toUse status (fu_status fu) \<rparr>
            in (200, saveQuotation qs (q\<lparr> q_followUps := (q_followUps q)[index := fu'] \<rparr>)))))"

definition deleteFollowUp :: "quotation list \<Rightarrow> oid \<Rightarrow> nat \<Rightarrow> nat \<times> quotation list" where
  "deleteFollowUp qs i index =
     (case findQuotation qs i of
        None \<Rightarrow> (404, qs)
      | Some q \<Rightarrow>
        (case elementAt (q_followUps q) index of
           None \<Rightarrow> (404, qs)
         | Some fu \<Rightarrow>
           (200, saveQuotation qs (q\<lparr> q_followUps := splice1 (q_followUps q) index \<rparr>))))"

section \<open>userController and teamController: users, teams, departments\<close>

text \<open>
  A reference to another document is an \<open>_id\<close> or \<open>null\<close>; in the request bodies of
  these two controllers a missing field and \<open>null\<close> are treated alike, so both are
  \<open>None\<close>.
\<close>

record user =
  u_id :: oid
  u_name :: string
  role :: string
  team :: "oid option"
  department :: "oid option"
  zone :: "oid option"

record team_doc =
  t_id :: oid
  t_name :: "string option"
  t_department :: "oid option"
  teamLeader :: "oid option"
  members :: "oid list"

record department_doc =
  d_id :: oid
  d_zone :: "oid option"

record org =
  users :: "user list"
  teams :: "team_doc list"
  departments :: "department_doc list"
  zones :: "oid list"

definition findUser :: "org \<Rightarrow> oid option \<Rightarrow> user option" where
  "findUser S i = (case i of None \<Rightarrow> None | Some k \<Rightarrow> find (\<lambda>u. u_id u = k) (users S))"

definition findTeam :: "org \<Rightarrow> oid \<Rightarrow> team_doc option" where
  "findTeam S i = find (\<lambda>t. t_id t = i) (teams S)"

definition findDepartment :: "org \<Rightarrow> oid option \<Rightarrow> department_doc option" where
  "findDepartment S i =
     (case i of None \<Rightarrow> None | Some k \<Rightarrow> find (\<lambda>d. d_id d = k) (departments S))"

text \<open>\<open>team.save()\<close> and \<open>Team.findByIdAndUpdate\<close>: the stored team of that \<open>_id\<close> is
  replaced.\<close>

definition saveTeam :: "org \<Rightarrow> team_doc \<Rightarrow> org" where
  "saveTeam S t = S\<lparr> teams := map (\<lambda>r. if t_id r = t_id t then t else r) (teams S) \<rparr>"

text \<open>
  The helper both controllers define (\<open>updateUserTeamAndDepartmentAndZone\<close> in the user
  controller, \<open>updateUserTeamAndDepartment\<close> in the team controller): the three fields of
  the user are overwritten; an unknown \<open>_id\<close> changes nothing.
\<close>

definition updateUserTeamAndDepartmentAndZone ::
  "org \<Rightarrow> oid \<Rightarrow> oid option \<Rightarrow> oid option \<Rightarrow> oid option \<Rightarrow> org" where
  "updateUserTeamAndDepartmentAndZone S userId teamId departmentId newZoneId =
     S\<lparr> users := map (\<lambda>u. if u_id u = userId
                              then u\<lparr> team := teamId, department := departmentId,
                                      zone := newZoneId \<rparr>
                              else u) (users S) \<rparr>"

record transfer_body =
  newDepartmentId :: "oid option"
  newTeamId :: "oid option"
  newZoneId :: "oid option"

text \<open>Step 1 of \<open>transferUser\<close>: the user leaves the members of the original team, and
  its lead if the user held it.\<close>

definition unassign :: "oid \<Rightarrow> team_doc \<Rightarrow> team_doc" where
  "unassign userId originalTeam =
     originalTeam\<lparr> members := filter (\<lambda>memberId. memberId \<noteq> userId) (members originalTeam),
                    teamLeader := (if teamLeader originalTeam = Some userId then None
                                   else teamLeader originalTeam) \<rparr>"

text \<open>Step 2: the user joins the members of the new team, and leads it if the user is a
  team leader and the team has none.\<close>

definition assign :: "user \<Rightarrow> team_doc \<Rightarrow> team_doc" where
  "assign usr newTeam =
     newTeam\<lparr> members := (if u_id usr \<in> set (members newTeam) then members newTeam
                           else members newTeam @ [u_id usr]),
               teamLeader := (if role usr = ''Team Leader'' \<and> teamLeader newTeam = None
                              then Some (u_id usr) else teamLeader newTeam) \<rparr>"

text \<open>\<open>transferUser\<close>: the HTTP status and the collections afterwards. The steps run in
  the order of the source; each \<open>save\<close> is in the store when the next step starts.\<close>

definition transferUser :: "org \<Rightarrow> oid \<Rightarrow> transfer_body \<Rightarrow> nat \<times> org" where
  "transferUser S userId body =
     (case findUser S (Some userId) of
        None \<Rightarrow> (404, S)
      | Some usr \<Rightarrow>
        (let originalTeamId = team usr;
             S1 = (case originalTeamId of
                     Some ot \<Rightarrow>
                       if originalTeamId \<noteq> newTeamId body then
                         (case findTeam S ot of
                            Some originalTeam \<Rightarrow> saveTeam S (unassign userId originalTeam)
                          | None \<Rightarrow> S)
                       else S
                   | None \<Rightarrow> S)
         in case newTeamId body of
              Some nt \<Rightarrow>
                (case findTeam S1 nt of
                   None \<Rightarrow> (400, S1)
                 | Some newTeam \<Rightarrow>
                   (200, updateUserTeamAndDepartmentAndZone (saveTeam S1 (assign usr newTeam))
                           userId (newTeamId body) (t_department newTeam) (newZoneId body)))
            | None \<Rightarrow>
                (200, updateUserTeamAndDepartmentAndZone S1 userId None (newDepartmentId body)
                        (newZoneId body))))"

record team_body =
  b_name :: "string option"
  b_department :: "oid option"
  b_teamLeader :: "oid option"
  b_members :: "oid list option"

text \<open>The leader checks both handlers make: the user exists, has the role, and leads no
  team (other than the one named by \<open>except\<close>). \<open>None\<close> when all pass, else the
  status of the rejection.\<close>

definition leaderRejected :: "org \<Rightarrow> oid \<Rightarrow> oid option \<Rightarrow> nat option" where
  "leaderRejected S leaderId except =
     (case findUser S (Some leaderId) of
        None \<Rightarrow> Some 400
      | Some leader \<Rightarrow>
        if role leader \<noteq> ''Team Leader'' then Some 400
        else (case find (\<lambda>t. teamLeader t = Some leaderId \<and> Some (t_id t) \<noteq> except) (teams S) of
                Some existingTeamWithLeader \<Rightarrow> Some 400
              | None \<Rightarrow> None))"

text \<open>\<open>Team.create\<close> and \<open>Team.findByIdAndUpdate\<close> fail on a team name already in use
  (the duplicate key error the handlers answer with 400).\<close>

definition nameTaken :: "org \<Rightarrow> string option \<Rightarrow> oid option \<Rightarrow> bool" where
  "nameTaken S n except =
     (n \<noteq> None \<and> list_ex (\<lambda>t. t_name t = n \<and> Some (t_id t) \<noteq> except) (teams S))"

text \<open>\<open>departmentWithZone?.zone?._id || null\<close> after \<open>populate('zone')\<close>.\<close>

definition populatedZone :: "org \<Rightarrow> department_doc \<Rightarrow> oid option" where
  "populatedZone S d =
     (case d_zone d of Some z \<Rightarrow> if z \<in> set (zones S) then Some z else None | None \<Rightarrow> None)"

definition createTeam :: "org \<Rightarrow> oid \<Rightarrow> team_body \<Rightarrow> nat \<times> org" where
  "createTeam S newId body =
     (case findDepartment S (b_department body) of
        None \<Rightarrow> (400, S)
      | Some existingDepartment \<Rightarrow>
        (let zoneId = populatedZone S existingDepartment;
             rejected = (case b_teamLeader body of
                           Some l \<Rightarrow> leaderRejected S l None | None \<Rightarrow> None)
         in case rejected of
              Some code \<Rightarrow> (code, S)
            | None \<Rightarrow>
              if nameTaken S (b_name body) None then (400, S)
              else
                (let newTeam = \<lparr> t_id = newId, t_name = b_name body,
                                 t_department = b_department body,
                                 teamLeader = b_teamLeader body,
                                 members = (case b_members body of Some ms \<Rightarrow> ms | None \<Rightarrow> []) \<rparr>;
                     S1 = S\<lparr> teams := teams S @ [newTeam] \<rparr>;
                     S2 = (case b_teamLeader body of
                             Some l \<Rightarrow> updateUserTeamAndDepartmentAndZone S1 l (Some newId)
                                         (b_department body) zoneId
                           | None \<Rightarrow> S1);
                     S3 = foldl (\<lambda>s memberId. updateUserTeamAndDepartmentAndZone s memberId
                                   (Some newId) (b_department body) zoneId) S2 (members newTeam)
                 in (201, S3))))"

text \<open>The second member loop of \<open>updateTeam\<close>. \<open>resolvedDepartmentId.toString()\<close> throws
  when the resolved department is \<open>null\<close> and the test reaches it; the loop then stops
  with what it has written so far, and the handler answers 400.\<close>

fun syncMembers :: "org \<Rightarrow> oid \<Rightarrow> oid option \<Rightarrow> oid option \<Rightarrow> oid list \<Rightarrow> bool \<times> org" where
  "syncMembers S teamId resolvedDepartmentId resolvedZoneId [] = (True, S)"
| "syncMembers S teamId resolvedDepartmentId resolvedZoneId (newMemberId # rest) =
     (case findUser S (Some newMemberId) of
        None \<Rightarrow>
          syncMembers (updateUserTeamAndDepartmentAndZone S newMemberId (Some teamId)
                         resolvedDepartmentId resolvedZoneId)
            teamId resolvedDepartmentId resolvedZoneId rest
      | Some usr \<Rightarrow>
          if team usr \<noteq> Some teamId then
            syncMembers (updateUserTeamAndDepartmentAndZone S newMemberId (Some teamId)
                           resolvedDepartmentId resolvedZoneId)
              teamId resolvedDepartmentId resolvedZoneId rest
          else if resolvedDepartmentId = None then (False, S)
          else if department usr \<noteq> resolvedDepartmentId then
            syncMembers (updateUserTeamAndDepartmentAndZone S newMemberId (Some teamId)
                           resolvedDepartmentId resolvedZoneId)
              teamId resolvedDepartmentId resolvedZoneId rest
          else syncMembers S teamId resolvedDepartmentId resolvedZoneId rest)"

text \<open>\<open>a || b\<close> on references.\<close>

definition orElse :: "'a option \<Rightarrow> 'a option \<Rightarrow> 'a option" where
  "orElse a b = (case a of Some x \<Rightarrow> Some x | None \<Rightarrow> b)"

text \<open>
  \<open>updateTeam\<close>. \<open>originalTeam.department.toString()\<close> throws when the stored team has
  no department, which the handler answers with 400. A field missing from the body
  leaves the stored one as it is in \<open>findByIdAndUpdate\<close>.
\<close>

definition updateTeam :: "org \<Rightarrow> oid \<Rightarrow> team_body \<Rightarrow> nat \<times> org" where
  "updateTeam S teamId body =
     (case findTeam S teamId of
        None \<Rightarrow> (404, S)
      | Some originalTeam \<Rightarrow>
        (let departmentRejected =
               (case b_department body of
                  None \<Rightarrow> False
                | Some d \<Rightarrow>
                  (case t_department originalTeam of
                     None \<Rightarrow> True
                   | Some od \<Rightarrow> d \<noteq> od \<and> findDepartment S (Some d) = None));
             currentLeaderId = teamLeader originalTeam;
             newLeaderId = b_teamLeader body;
             rejected = (case newLeaderId of
                           Some l \<Rightarrow> if newLeaderId \<noteq> currentLeaderId
                                     then leaderRejected S l (Some teamId) else None
                         | None \<Rightarrow> None)
         in if departmentRejected then (400, S)
            else case rejected of
              Some code \<Rightarrow> (code, S)
            | None \<Rightarrow>
              if nameTaken S (b_name body) (Some teamId) then (400, S)
              else
                (let newMemberIds = (case b_members body of Some ms \<Rightarrow> ms | None \<Rightarrow> []);
                     updatedTeam =
                       originalTeam\<lparr> t_name := orElse (b_name body) (t_name originalTeam),
                                      t_department := orElse (b_department body)
                                                        (t_department originalTeam),
                                      teamLeader := newLeaderId, members := newMemberIds \<rparr>;
                     S1 = saveTeam S updatedTeam;
                     resolvedDepartmentId = orElse (b_department body) (t_department originalTeam);
                     resolvedZoneId =
                       orElse (case findUser S1 currentLeaderId of Some u \<Rightarrow> zone u | None \<Rightarrow> None)
                              (case findUser S1 newLeaderId of Some u \<Rightarrow> zone u | None \<Rightarrow> None);
                     S2 = (case currentLeaderId of
                             Some c \<Rightarrow> if currentLeaderId \<noteq> newLeaderId
                                       then updateUserTeamAndDepartmentAndZone S1 c None None None
                                       else S1
                           | None \<Rightarrow> S1);
                     S3 = (case newLeaderId of
                             Some l \<Rightarrow> updateUserTeamAndDepartmentAndZone S2 l (Some teamId)
                                         resolvedDepartmentId resolvedZoneId
                           | None \<Rightarrow> S2);
                     S4 = foldl (\<lambda>s originalMemberId.
                                   if originalMemberId \<in> set newMemberIds then s
                                   else updateUserTeamAndDepartmentAndZone s originalMemberId
                                          None None None)
                            S3 (members originalTeam);
                     (ok, S5) = syncMembers S4 teamId resolvedDepartmentId resolvedZoneId
                                  newMemberIds
                 in (if ok then 200 else 400, S5))))"

section \<open>accountController: business accounts\<close>

record account_follow_up =
  afu_date :: "string js"
  afu_note :: "string js"
  afu_addedBy :: "oid js"
  afu_status :: "string js"
  afu_createdAt :: nat

text \<open>
  The stored document, as far as the handlers modelled here go. The schema
  (\<open>BusinessAccount.js\<close>) declares no \<open>isCustomer\<close> path; a stored document may still
  carry the field, so it is kept here, \<open>Undefined\<close> when the document has none.
\<close>

record account =
  a_id :: oid
  businessName :: string
  contactName :: string
  contactNumber :: string
  status :: "string js"
  isCustomer :: "bool js"
  assignedTo :: "oid js"
  followUps :: "account_follow_up list"

text \<open>The fields of the body of \<open>POST /accounts\<close> and \<open>PUT /accounts/:id\<close> that the
  schema's validators and the two handlers read.\<close>

record account_body =
  b_businessName :: "string js"
  b_contactName :: "string js"
  b_contactNumber :: "string js"
  b_status :: "string js"
  b_assignedTo :: "oid js"

subsection \<open>The regular expression of the duplicate check\<close>

text \<open>
  \<open>create\<close> looks for an existing account with
  \<open>new RegExp(`^${data.businessName}$`, 'i')\<close>: the name is pasted into the pattern as it
  is, so its characters are read as pattern syntax. The model covers the patterns made
  of ordinary characters, the dot and capturing groups; it reports a pattern with any
  other syntax character as outside the fragment. Names are strings of printable ASCII
  characters.
\<close>

datatype atom = Lit char | AnyChar

datatype compiled = SyntaxError | Unsupported | Pattern "atom list"

definition printable :: "string \<Rightarrow> bool" where
  "printable s = list_all (\<lambda>c. 32 \<le> (of_char c :: nat) \<and> (of_char c :: nat) \<le> 126) s"

text \<open>
  \<open>compile depth p\<close> reads the pattern source \<open>p\<close> with \<open>depth\<close> groups open. A capturing
  group matches what its content matches, so its parentheses add no atom; a closing
  parenthesis with no group open, or a group left open at the end, is the
  \<open>SyntaxError\<close> that \<open>new RegExp\<close> throws.
\<close>

fun compile :: "nat \<Rightarrow> string \<Rightarrow> compiled" where
  "compile depth [] = (if depth = 0 then Pattern [] else SyntaxError)"
| "compile depth (c # cs) =
     (if c = CHR ''('' then compile (Suc depth) cs
      else if c = CHR '')'' then (if depth = 0 then SyntaxError else compile (depth - 1) cs)
      else if c \<in> set ''*+?|[]{}^$'' \<or> c = CHR 0x5C then Unsupported
      else (case compile depth cs of
              Pattern atoms \<Rightarrow> Pattern ((if c = CHR ''.'' then AnyChar else Lit c) # atoms)
            | other \<Rightarrow> other))"

text \<open>The flag \<open>i\<close>: letters are compared in upper case.\<close>

definition toUpperCase :: "char \<Rightarrow> char" where
  "toUpperCase c =
     (if 97 \<le> (of_char c :: nat) \<and> (of_char c :: nat) \<le> 122
      then char_of ((of_char c :: nat) - 32) else c)"

fun atom_matches :: "atom \<Rightarrow> char \<Rightarrow> bool" where
  "atom_matches (Lit a) c = (toUpperCase a = toUpperCase c)"
| "atom_matches AnyChar c = True"

text \<open>The pattern is anchored at both ends: every atom takes one character of the
  whole string.\<close>

definition test :: "atom list \<Rightarrow> string \<Rightarrow> bool" where
  "test atoms s = list_all2 atom_matches atoms s"

text \<open>\<open>`^${data.businessName}$`\<close>: a missing name is pasted as \<open>undefined\<close>, \<open>null\<close> as
  \<open>null\<close>.\<close>

definition template :: "string js \<Rightarrow> string" where
  "template n = (case n of Val s \<Rightarrow> s | Undefined \<Rightarrow> ''undefined'' | Null \<Rightarrow> ''null'')"

subsection \<open>create and update\<close>

datatype reply =
  Reply nat
| Conflict string oid "(string \<times> string) option"

fun code :: "reply \<Rightarrow> nat" where
  "code (Reply n) = n"
| "code (Conflict message existingAccount assigned) = 409"

text \<open>\<open>populate('assignedTo', 'name role')\<close>: the name and role of the referenced user,
  \<open>None\<close> when there is none.\<close>

definition populateAssignedTo :: "user list \<Rightarrow> oid js \<Rightarrow> (string \<times> string) option" where
  "populateAssignedTo us ref =
     (case ref of
        Val i \<Rightarrow> map_option (\<lambda>u. (u_name u, role u)) (find (\<lambda>u. u_id u = i) us)
      | _ \<Rightarrow> None)"

definition conflictMessage :: "(string \<times> string) option \<Rightarrow> string" where
  "conflictMessage assigned =
     ''An account with this business name already exists. It is currently assigned to ''
       @ (case assigned of Some (n, r) \<Rightarrow> n | None \<Rightarrow> ''an unassigned user'') @ ''.''"

text \<open>The schema's validators: the three required strings, and the \<open>enum\<close> of
  \<open>status\<close>.\<close>

definition statuses :: "string list" where
  "statuses = [''Active'', ''Pipeline'', ''Quotations'', ''Customer'', ''Closed'', ''TargetLeads'']"

definition validStatus :: "string js \<Rightarrow> bool" where
  "validStatus s = (case s of Val v \<Rightarrow> v \<in> set statuses | _ \<Rightarrow> True)"

definition validNew :: "account_body \<Rightarrow> bool" where
  "validNew b = (truthy (b_businessName b) \<and> truthy (b_contactName b)
                 \<and> truthy (b_contactNumber b) \<and> validStatus (b_status b))"

text \<open>
  What both handlers put into \<open>data.isCustomer\<close>:
  \<open>if (data.status === 'Customer') data.isCustomer = true; else data.isCustomer = false\<close>.
\<close>

definition data_isCustomer :: "account_body \<Rightarrow> bool" where
  "data_isCustomer data = (b_status data = Val ''Customer'')"

text \<open>
  \<open>create\<close>: the reply and the collection afterwards; \<open>None\<close> when the pattern is
  outside the modelled fragment. The order is the source's: building the pattern (a
  \<open>SyntaxError\<close> is answered with 500), the duplicate check (409), the flag, validation
  in \<open>save\<close> (400), the unique index on \<open>businessName\<close> (its duplicate key error is
  answered with 500), 201. The schema is strict (the default) and has no \<open>isCustomer\<close>
  path, so \<open>new BusinessAccount(data)\<close> leaves \<open>data.isCustomer\<close> out: the document
  stored carries no flag.
\<close>

definition create_account ::
  "user list \<Rightarrow> account list \<Rightarrow> oid \<Rightarrow> account_body \<Rightarrow> (reply \<times> account list) option" where
  "create_account us accounts newId data =
     (if printable (template (b_businessName data))
         \<and> list_all (\<lambda>a. printable (businessName a)) accounts then
        (case compile 0 (template (b_businessName data)) of
          Unsupported \<Rightarrow> None
        | SyntaxError \<Rightarrow> Some (Reply 500, accounts)
        | Pattern atoms \<Rightarrow>
          (case find (\<lambda>a. test atoms (businessName a)) accounts of
             Some existingAccount \<Rightarrow>
               (let assigned = populateAssignedTo us (assignedTo existingAccount)
                in Some (Conflict (conflictMessage assigned) (a_id existingAccount) assigned,
                         accounts))
           | None \<Rightarrow>
               (if \<not> validNew data then Some (Reply 400, accounts)
                else if list_ex (\<lambda>a. Val (businessName a) = b_businessName data) accounts
                then Some (Reply 500, accounts)
                else
                  Some (Reply 201,
                        accounts @
                          [\<lparr> a_id = newId,
                             businessName = or_default (b_businessName data) [],
                             contactName = or_default (b_contactName data) [],
                             contactNumber = or_default (b_contactNumber data) [],
                             status = (case b_status data of
                                         Undefined \<Rightarrow> Val ''Active'' | s \<Rightarrow> s),
                             isCustomer = Undefined,
                             assignedTo = b_assignedTo data,
                             followUps = [] \<rparr>]))))
      else None)"

text \<open>A field of the update document overwrites the stored one when it is in the body.\<close>

definition setString :: "string js \<Rightarrow> string \<Rightarrow> string" where
  "setString sent stored = (case sent of Val s \<Rightarrow> s | _ \<Rightarrow> stored)"

definition validUpdate :: "account_body \<Rightarrow> bool" where
  "validUpdate b =
     ((b_businessName b = Undefined \<or> truthy (b_businessName b))
      \<and> (b_contactName b = Undefined \<or> truthy (b_contactName b))
      \<and> (b_contactNumber b = Undefined \<or> truthy (b_contactNumber b))
      \<and> validStatus (b_status b))"

text \<open>
  \<open>update\<close>: \<open>findByIdAndUpdate\<close> writes the fields of \<open>data\<close> that the schema has, those
  of the body; \<open>data.isCustomer\<close> is not among them and is dropped from the update, so
  the stored \<open>isCustomer\<close> is left as it is. The validators run on the fields of \<open>data\<close>
  (400); an unknown \<open>_id\<close> gives 404; a name another account has is the duplicate key
  error (500).
\<close>

definition update_account ::
  "account list \<Rightarrow> oid \<Rightarrow> account_body \<Rightarrow> nat \<times> account list" where
  "update_account accounts i data =
     (if \<not> validUpdate data then (400, accounts)
      else case find (\<lambda>a. a_id a = i) accounts of
        None \<Rightarrow> (404, accounts)
      | Some a \<Rightarrow>
        if list_ex (\<lambda>r. a_id r \<noteq> i \<and> Val (businessName r) = b_businessName data) accounts
        then (500, accounts)
        else
          (let updated =
                 a\<lparr> businessName := setString (b_businessName data) (businessName a),
                    contactName := setString (b_contactName data) (contactName a),
                    contactNumber := setString (b_contactNumber data) (contactNumber a),
                    status := toUse (b_status data) (status a),
                    assignedTo := toUse (b_assignedTo data) (assignedTo a) \<rparr>
           in (200, map (\<lambda>r. if a_id r = i then updated else r) accounts)))"

subsection \<open>Follow-ups of an account\<close>

definition saveAccount :: "account list \<Rightarrow> account \<Rightarrow> account list" where
  "saveAccount accounts a = map (\<lambda>r. if a_id r = a_id a then a else r) accounts"

text \<open>The sub-document validators that \<open>save\<close> runs: \<open>date\<close> and \<open>note\<close> are required,
  \<open>status\<close> is one of the two values. A failure is answered with 500 by these two
  handlers.\<close>

definition validFollowUp :: "account_follow_up \<Rightarrow> bool" where
  "validFollowUp f =
     (truthy (afu_date f) \<and> truthy (afu_note f)
      \<and> (case afu_status f of Val s \<Rightarrow> s = ''pending'' \<or> s = ''completed'' | _ \<Rightarrow> True))"

definition updateFollowUp_account ::
  "account list \<Rightarrow> oid \<Rightarrow> nat \<Rightarrow> string js \<Rightarrow> string js \<Rightarrow> string js \<Rightarrow> nat \<times> account list" where
  "updateFollowUp_account accounts i index date note st =
     (case find (\<lambda>a. a_id a = i) accounts of
        None \<Rightarrow> (404, accounts)
      | Some a \<Rightarrow>
        (case elementAt (followUps a) index of
           None \<Rightarrow> (404, accounts)
         | Some fu \<Rightarrow>
           (let fu' = fu\<lparr> afu_date := date, afu_note := note, afu_status := st \<rparr>
            in if \<not> validFollowUp fu' then (500, accounts)
               else (200, saveAccount accounts
                            (a\<lparr> followUps := (followUps a)[index := fu'] \<rparr>)))))"

definition deleteFollowUp_account :: "account list \<Rightarrow> oid \<Rightarrow> nat \<Rightarrow> nat \<times> account list" where
  "deleteFollowUp_account accounts i index =
     (case find (\<lambda>a. a_id a = i) accounts of
        None \<Rightarrow> (404, accounts)
      | Some a \<Rightarrow>
        (case elementAt (followUps a) index of
           None \<Rightarrow> (404, accounts)
         | Some fu \<Rightarrow>
           (200, saveAccount accounts (a\<lparr> followUps := splice1 (followUps a) index \<rparr>))))"

section \<open>Example documents\<close>

text \<open>A stored quotation numbered \<open>Q-00042\<close>, with one note.\<close>

definition quotation42 :: quotation where
  "quotation42 =
     \<lparr> q_id = ObjectId 1, quotationNumber = Val ''Q-00042'', q_gstType = Val ''intrastate'',
       q_items = [\<lparr> quantity = Num 2, rate = Num 100, gstPercentage = Num 18 \<rparr>],
       subTotal = 200,
       gstBreakdown = \<lparr> totalGst = 36, sgst = 18, cgst = 18, igst = 0 \<rparr>,
       total = 236,
       q_manualGstAmount = Undefined, q_manualSgstPercentage = Undefined,
       q_manualCgstPercentage = Undefined, q_manualIgstPercentage = Undefined,
       q_notes = [\<lparr> note_text = Val ''first call'', note_author = ''Asha'',
                    note_timestamp = 1000 \<rparr>],
       q_followUps = [\<lparr> fu_date = Val ''2025-01-10'', fu_note = Val ''ring back'',
                        fu_status = Val ''Pending'', fu_addedBy = Val (ObjectId 7),
                        fu_timestamp = 1000 \<rparr>],
       q_status = ''Draft'', createdAt = 1000, updatedAt = 1000 \<rparr>"

text \<open>The body of an update that holds nothing but notes.\<close>

definition notes_body :: "note_in list \<Rightarrow> update_body" where
  "notes_body ns =
     \<lparr> u_notes = Val ns, u_items = Undefined, u_gstType = Undefined,
       u_manualGstAmount = Undefined, u_manualSgstPercentage = Undefined,
       u_manualCgstPercentage = Undefined, u_manualIgstPercentage = Undefined,
       u_status = Undefined \<rparr>"

text \<open>A customer account assigned to the user Ravi, with one follow-up.\<close>

definition acme :: account where
  "acme =
     \<lparr> a_id = ObjectId 1, businessName = ''Acme (India)'', contactName = ''Anil'',
       contactNumber = ''98400'', status = Val ''Customer'', isCustomer = Val True,
       assignedTo = Val (ObjectId 7),
       followUps = [\<lparr> afu_date = Val ''2025-01-10'', afu_note = Val ''ring back'',
                      afu_addedBy = Val (ObjectId 7), afu_status = Val ''pending'',
                      afu_createdAt = 1000 \<rparr>] \<rparr>"

definition ravi :: user where
  "ravi = \<lparr> u_id = ObjectId 7, u_name = ''Ravi'', role = ''Employee'', team = None,
            department = None, zone = None \<rparr>"

text \<open>Two teams of one department: North, led by Asha, with Asha and Binod as members;
  South, with no leader and no member.\<close>

definition north :: org where
  "north =
     \<lparr> users =
         [\<lparr> u_id = ObjectId 1, u_name = ''Asha'', role = ''Team Leader'',
            team = Some (ObjectId 10), department = Some (ObjectId 20),
            zone = Some (ObjectId 30) \<rparr>,
          \<lparr> u_id = ObjectId 2, u_name = ''Binod'', role = ''Employee'',
            team = Some (ObjectId 10), department = Some (ObjectId 20),
            zone = Some (ObjectId 30) \<rparr>],
       teams =
         [\<lparr> t_id = ObjectId 10, t_name = Some ''North'', t_department = Some (ObjectId 20),
            teamLeader = Some (ObjectId 1), members = [ObjectId 1, ObjectId 2] \<rparr>,
          \<lparr> t_id = ObjectId 11, t_name = Some ''South'', t_department = Some (ObjectId 20),
            teamLeader = None, members = [] \<rparr>],
       departments = [\<lparr> d_id = ObjectId 20, d_zone = Some (ObjectId 30) \<rparr>],
       zones = [ObjectId 30] \<rparr>"

text \<open>The characters with no meaning in a pattern that the lemmas on the duplicate
  check speak of: letters, digits and the space.\<close>

definition plain :: "char \<Rightarrow> bool" where
  "plain c = ((of_char c :: nat) = 32 \<or> (48 \<le> (of_char c :: nat) \<and> (of_char c :: nat) \<le> 57)
              \<or> (65 \<le> (of_char c :: nat) \<and> (of_char c :: nat) \<le> 90)
              \<or> (97 \<le> (of_char c :: nat) \<and> (of_char c :: nat) \<le> 122))"

section \<open>The calculator: override precedence\<close>

text \<open>
  C1. When \<open>manualGstAmount\<close> holds a number, \<open>calculateTotal\<close> takes it as the tax, as
  an absolute amount: the total is the sub-total plus that amount, rounded to two
  decimals, whatever \<open>gstType\<close> and the three manual percentages are. The second
  conjunct says the same of the total the handlers store for an item list.
\<close>

theorem manual_gst_amount_wins:
  "calculateTotal sub bd gt (Num g) mSgst mCgst mIgst = formatCurrency (sub + g)
   \<and> quotationTotal its gt (Num g) mSgst mCgst mIgst
       = formatCurrency (calculateSubTotal its + g)"
  by (simp add: quotationTotal_def calculateTotal_def taxToUse_def)

text \<open>The example of the specification: an amount of 50 next to an SGST percentage of
  5, on a sub-total of 200, gives 250.\<close>

theorem manual_gst_amount_wins_witness:
  "calculateTotal 200 \<lparr> totalGst = 36, sgst = 18, cgst = 18, igst = 0 \<rparr> (Val ''intrastate'')
     (Num 50) (Num 5) Undefined Undefined = 250"
proof -
  have "formatCurrency (200 + 50) = 250"
    by (simp add: formatCurrency_def)
  with manual_gst_amount_wins
         [of 200 "\<lparr> totalGst = 36, sgst = 18, cgst = 18, igst = 0 \<rparr>" "Val ''intrastate''" 50
            "Num 5" Undefined Undefined]
  show ?thesis by simp
qed

section \<open>The calculator: the automatic tax\<close>

text \<open>
  With no override at all, an interstate quotation of 0.4 units at 1.01 and 1 percent
  GST has sub-total 0.404 and unrounded tax 0.00404. The handlers store the total 0.40:
  the tax they add is the breakdown's \<open>totalGst\<close>, already rounded (to 0.00). Rounding
  the sum of sub-total and unrounded tax would give 0.41.
\<close>

theorem auto_tax_is_not_raw_counterexample:
  "quotationTotal [\<lparr> quantity = Num (2 / 5), rate = Num (101 / 100), gstPercentage = Num 1 \<rparr>]
       (Val ''interstate'') Undefined Undefined Undefined Undefined = 40 / 100
   \<and> formatCurrency
        (calculateSubTotal
           [\<lparr> quantity = Num (2 / 5), rate = Num (101 / 100), gstPercentage = Num 1 \<rparr>]
         + totalCalculatedGst
             [\<lparr> quantity = Num (2 / 5), rate = Num (101 / 100), gstPercentage = Num 1 \<rparr>])
       = 41 / 100
   \<and> quotationTotal [\<lparr> quantity = Num (2 / 5), rate = Num (101 / 100), gstPercentage = Num 1 \<rparr>]
       (Val ''interstate'') Undefined Undefined Undefined Undefined
     \<noteq> formatCurrency
        (calculateSubTotal
           [\<lparr> quantity = Num (2 / 5), rate = Num (101 / 100), gstPercentage = Num 1 \<rparr>]
         + totalCalculatedGst
             [\<lparr> quantity = Num (2 / 5), rate = Num (101 / 100), gstPercentage = Num 1 \<rparr>])"
  by code_simp

text \<open>
  C2, amended. When no manual override is present (and, for an intrastate quotation, the
  two percentages are \<open>null\<close> rather than missing), the total is the sub-total plus the
  rounded automatic tax, rounded: \<open>round2 (subtotal + round2 rawTotalGst)\<close>.
\<close>

theorem auto_tax_is_rounded_total_gst:
  assumes "\<not> present mGst" and "\<not> present mSgst" and "\<not> present mCgst"
    and "\<not> present mIgst"
    and "gt = Val ''intrastate'' \<longrightarrow> mSgst = Null \<and> mCgst = Null"
  shows "quotationTotal its gt mGst mSgst mCgst mIgst
         = formatCurrency (calculateSubTotal its + formatCurrency (totalCalculatedGst its))"
proof -
  from assms(1) have tax: "taxToUse (calculateSubTotal its) (calculateTotalGst its gt) gt
      mGst mSgst mCgst mIgst = totalGst (calculateTotalGst its gt)"
    using assms(4,5) by (cases mGst) (auto simp: taxToUse_def)
  have "totalGst (calculateTotalGst its gt) = formatCurrency (totalCalculatedGst its)"
    by (simp add: calculateTotalGst_def Let_def split: prod.splits)
  with tax show ?thesis
    by (simp add: quotationTotal_def calculateTotal_def)
qed

theorem auto_tax_is_rounded_total_gst_witness:
  "quotationTotal [\<lparr> quantity = Num 2, rate = Num 100, gstPercentage = Num 18 \<rparr>]
      (Val ''intrastate'') Undefined Null Null Undefined = 236"
proof -
  have "formatCurrency
          (calculateSubTotal [\<lparr> quantity = Num 2, rate = Num 100, gstPercentage = Num 18 \<rparr>]
           + formatCurrency
               (totalCalculatedGst
                  [\<lparr> quantity = Num 2, rate = Num 100, gstPercentage = Num 18 \<rparr>])) = 236"
    by code_simp
  with auto_tax_is_rounded_total_gst
         [of Undefined Null Null Undefined "Val ''intrastate''"
            "[\<lparr> quantity = Num 2, rate = Num 100, gstPercentage = Num 18 \<rparr>]"]
  show ?thesis by simp
qed

text \<open>
  What the amended statement leaves out: an intrastate quotation whose two percentages
  are missing (not \<open>null\<close>) takes the second branch, whose test excludes \<open>null\<close> only,
  and pays the two rounded halves. One unit at 1.00 with 1 percent GST comes to 1.02,
  and to 1.01 when the percentages are \<open>null\<close>.
\<close>

lemma missing_percentages_intrastate:
  "quotationTotal [\<lparr> quantity = Num 1, rate = Num 1, gstPercentage = Num 1 \<rparr>]
      (Val ''intrastate'') Undefined Undefined Undefined Undefined = 102 / 100
   \<and> quotationTotal [\<lparr> quantity = Num 1, rate = Num 1, gstPercentage = Num 1 \<rparr>]
      (Val ''intrastate'') Undefined Null Null Undefined = 101 / 100"
  by code_simp

section \<open>Quotation numbers\<close>

lemma split_not_Nil: "split sep s \<noteq> []"
  by (induction s) (auto split: list.splits)

lemma split_no_sep: "sep \<notin> set s \<Longrightarrow> split sep s = [s]"
  by (induction s) auto

lemma split_append: "split sep (pre @ sep # s) = split sep pre @ split sep s"
  using split_not_Nil[of sep] by (induction pre) (auto split: list.splits)

lemma last_split_append: "last (split sep (pre @ sep # s)) = last (split sep s)"
  by (simp add: split_append split_not_Nil)

lemma pop_split_suffix:
  "sep \<notin> set s \<Longrightarrow> pop (split sep (pre @ sep # s)) = s"
  by (simp add: pop_def last_split_append split_no_sep)

lemma digit_not_space: "is_digit c \<Longrightarrow> \<not> is_space c"
  by (auto simp: is_digit_def is_space_def)

lemma digit_not_sign: "is_digit c \<Longrightarrow> c \<noteq> CHR ''-'' \<and> c \<noteq> CHR ''+'' \<and> c \<noteq> CHR ''x'' \<and> c \<noteq> CHR ''X''"
  by (auto simp: is_digit_def)

lemma parseInt_digits:
  assumes "ds \<noteq> []" and "list_all is_digit ds"
  shows "parseInt ds = Some (int (radix_value 10 digit_value ds))"
proof -
  obtain c cs where ds: "ds = c # cs" using assms(1) by (cases ds) auto
  with assms(2) have c: "is_digit c" and cs: "list_all is_digit cs" by auto
  have drop: "dropWhile is_space (c # cs) = c # cs"
    using c digit_not_space by simp
  have take: "takeWhile is_digit (c # cs) = c # cs"
    using assms(2) ds by (simp add: list_all_iff)
  show ?thesis
  proof (cases cs)
    case Nil
    then show ?thesis
      unfolding parseInt_def ds drop using c digit_not_sign[OF c] take
      by (simp add: Let_def)
  next
    case (Cons b r)
    with cs have "is_digit b" by simp
    then have "b \<noteq> CHR ''x''" "b \<noteq> CHR ''X''" using digit_not_sign by auto
    then show ?thesis
      unfolding parseInt_def ds drop using c digit_not_sign[OF c] take Cons
      by (simp add: Let_def)
  qed
qed

lemma nextNumber_digits:
  assumes "ds \<noteq> []" and "list_all is_digit ds"
  shows "nextNumber (pre @ ''-'' @ ds)
         = ''Q-'' @ padStart 5 CHR ''0'' (nat_toString (radix_value 10 digit_value ds + 1))"
proof -
  have "CHR ''-'' \<notin> set ds"
    using assms(2) digit_not_sign by (auto simp: list_all_iff)
  then have "pop (split CHR ''-'' (pre @ ''-'' @ ds)) = ds"
    using pop_split_suffix[of "CHR ''-''" ds pre] by simp
  then show ?thesis
    by (simp add: nextNumber_def parseInt_digits[OF assms] toString_def Let_def nat_add_distrib)
qed

text \<open>\<open>nat_toString\<close> writes the decimal numeral: digits only, and of the value.\<close>

lemma nat_toString_digits: "list_all is_digit (nat_toString n)"
proof (induction n rule: nat_toString.induct)
  case (1 n)
  have d: "\<And>k::nat. k < 10 \<Longrightarrow> is_digit (char_of (48 + k))"
    by (simp add: is_digit_def)
  show ?case
  proof (cases "n < 10")
    case True
    then show ?thesis by (simp add: nat_toString.simps[of n] d)
  next
    case False
    with 1 show ?thesis by (simp add: nat_toString.simps[of n] d)
  qed
qed

lemma radix_value_snoc: "radix_value r dv (ds @ [c]) = r * radix_value r dv ds + dv c"
  by (simp add: radix_value_def)

lemma nat_toString_value: "radix_value 10 digit_value (nat_toString n) = n"
proof (induction n rule: nat_toString.induct)
  case (1 n)
  have d: "\<And>k::nat. k < 10 \<Longrightarrow> digit_value (char_of (48 + k)) = k"
    by (simp add: digit_value_def)
  show ?case
  proof (cases "n < 10")
    case True
    then show ?thesis by (simp add: nat_toString.simps[of n] d radix_value_def)
  next
    case False
    with 1 show ?thesis by (simp add: nat_toString.simps[of n] d radix_value_snoc)
  qed
qed

lemma padStart_length: "n \<le> length (padStart n c s)"
  by (simp add: padStart_def)

text \<open>A created quotation is stored last, under the number resolved from the body and
  the quotation created last before it.\<close>

lemma create_stores_final_number:
  assumes "create now userName newId qs body = (201, qs')"
  shows "\<exists>nq. qs' = qs @ [nq]
           \<and> quotationNumber nq
               = Val (finalQuotationNumber (c_quotationNumber body) (findLast qs))"
  using assms
  by (auto simp: create_def Let_def split: js.splits if_splits)

text \<open>
  C3. The number \<open>create\<close> assigns: a number sent by the caller (a truthy string) is
  used as it is; with none sent and no quotation stored it is \<open>Q-00001\<close>; with none sent
  and the quotation created last numbered \<open>pre-ds\<close>, where \<open>ds\<close> is a non-empty digit
  string of value \<open>N\<close>, it is \<open>Q-\<close> followed by the numeral of \<open>N + 1\<close> padded with
  zeros to five characters. JavaScript numbers hold \<open>N + 1\<close> exactly up to \<open>2^53\<close>, the
  range the third part is stated for.
\<close>

theorem quotation_number_resolution:
  "(truthy sent \<longrightarrow> Val (finalQuotationNumber sent (findLast qs)) = sent)
   \<and> (\<not> truthy sent \<longrightarrow> finalQuotationNumber sent (findLast []) = ''Q-00001'')
   \<and> (\<not> truthy sent \<and> findLast qs = Some lq \<and> quotationNumber lq = Val (pre @ ''-'' @ ds)
        \<and> ds \<noteq> [] \<and> list_all is_digit ds \<and> radix_value 10 digit_value ds + 1 \<le> 2 ^ 53
      \<longrightarrow> finalQuotationNumber sent (findLast qs)
          = ''Q-'' @ padStart 5 CHR ''0'' (nat_toString (radix_value 10 digit_value ds + 1)))"
proof (intro conjI impI)
  assume "truthy sent"
  then show "Val (finalQuotationNumber sent (findLast qs)) = sent"
    by (cases sent) (auto simp: finalQuotationNumber_def or_default_def)
next
  assume "\<not> truthy sent"
  then show "finalQuotationNumber sent (findLast []) = ''Q-00001''"
    by (simp add: finalQuotationNumber_def)
next
  assume h: "\<not> truthy sent \<and> findLast qs = Some lq \<and> quotationNumber lq = Val (pre @ ''-'' @ ds)
        \<and> ds \<noteq> [] \<and> list_all is_digit ds \<and> radix_value 10 digit_value ds + 1 \<le> 2 ^ 53"
  then have "truthy (quotationNumber lq)" by simp
  with h show "finalQuotationNumber sent (findLast qs)
          = ''Q-'' @ padStart 5 CHR ''0'' (nat_toString (radix_value 10 digit_value ds + 1))"
    using nextNumber_digits[of ds pre]
    by (simp add: finalQuotationNumber_def or_default_def)
qed

theorem quotation_number_resolution_witness:
  "finalQuotationNumber (Val ''MC-7'') (findLast [quotation42]) = ''MC-7''
   \<and> finalQuotationNumber Undefined (findLast []) = ''Q-00001''
   \<and> finalQuotationNumber Undefined (findLast [quotation42]) = ''Q-00043''"
proof -
  have v: "radix_value 10 digit_value ''00042'' = 42"
    by code_simp
  have h: "\<not> truthy Undefined \<and> findLast [quotation42] = Some quotation42
        \<and> quotationNumber quotation42 = Val (''Q'' @ ''-'' @ ''00042'')
        \<and> ''00042'' \<noteq> [] \<and> list_all is_digit ''00042''"
    by code_simp
  have b: "radix_value 10 digit_value ''00042'' + 1 \<le> 2 ^ 53"
    unfolding v by simp
  have r: "''Q-'' @ padStart 5 CHR ''0'' (nat_toString (radix_value 10 digit_value ''00042'' + 1))
           = ''Q-00043''"
    by code_simp
  have t: "truthy (Val ''MC-7'')"
    by simp
  note w = quotation_number_resolution
             [of Undefined "[quotation42]" quotation42 "''Q''" "''00042''"]
  have "Val (finalQuotationNumber (Val ''MC-7'') (findLast [quotation42])) = Val ''MC-7''"
    using quotation_number_resolution [of "Val ''MC-7''" "[quotation42]"] t by blast
  moreover have "finalQuotationNumber Undefined (findLast []) = ''Q-00001''"
    using w h by blast
  moreover have "finalQuotationNumber Undefined (findLast [quotation42]) = ''Q-00043''"
    using w h b r by presburger
  ultimately show ?thesis by simp
qed

section \<open>Quotation updates: notes\<close>

lemma find_replaced:
  "find (\<lambda>q. q_id q = i) qs = Some q \<Longrightarrow> q_id q' = i
   \<Longrightarrow> find (\<lambda>q. q_id q = i) (map (\<lambda>r. if q_id r = i then q' else r) qs) = Some q'"
  by (induction qs) (auto split: if_splits)

lemma findQuotation_id: "findQuotation qs i = Some q \<Longrightarrow> q_id q = i"
  by (auto simp: findQuotation_def find_Some_iff)

lemma findQuotation_saveQuotation:
  "findQuotation qs i = Some q \<Longrightarrow> q_id q' = i
   \<Longrightarrow> findQuotation (saveQuotation qs q') i = Some q'"
  by (simp add: findQuotation_def saveQuotation_def find_replaced)

text \<open>An update answers 200 with the document saved, or 500 with nothing saved.\<close>

lemma update_found:
  assumes "findQuotation qs i = Some q" and "update now userName qs i body = (200, qs')"
  shows "\<exists>q'. qs' = saveQuotation qs q' \<and> q_id q' = i
              \<and> q_notes q' = mergeNotes now userName (q_notes q) (u_notes body)"
proof -
  have i: "q_id q = i" using assms(1) by (rule findQuotation_id)
  show ?thesis
    using assms i
    by (auto simp: update_def Let_def split: js.splits if_splits)
qed

text \<open>
  An update whose only key is \<open>notes\<close>, holding one note with no \<open>text\<close>: the handler
  answers 200 and the stored notes are the old ones; the incoming note is not in the
  sequence.
\<close>

theorem update_notes_counterexample:
  "update 2000 (Val ''Ravi'') [quotation42] (ObjectId 1)
      (notes_body [\<lparr> in_text = Undefined, in_author = Val ''Ravi'', in_timestamp = Undefined \<rparr>])
     = (200, [quotation42 \<lparr> updatedAt := 2000 \<rparr>])
   \<and> q_notes (quotation42 \<lparr> updatedAt := 2000 \<rparr>)
     = [\<lparr> note_text = Val ''first call'', note_author = ''Asha'', note_timestamp = 1000 \<rparr>]"
  by code_simp

text \<open>
  C9, amended. On a quotation update that succeeds and whose body holds a \<open>notes\<close>
  array, the stored notes afterwards are the old notes followed by the incoming notes
  that have a non-empty \<open>text\<close>, in order, each with its \<open>text\<close>, the author (the note's,
  else the acting user's name, else \<open>System\<close>) and the time (the note's, else now). Notes
  without text are skipped; no old note is removed or replaced.
\<close>

theorem update_appends_notes_with_text:
  assumes "findQuotation qs i = Some q" and "u_notes body = Val ns"
    and "update now userName qs i body = (200, qs')"
  shows "\<exists>q'. findQuotation qs' i = Some q'
           \<and> q_notes q' =
               q_notes q @
               map (\<lambda>n. \<lparr> note_text = in_text n,
                           note_author = author_of (in_author n) userName,
                           note_timestamp = time_or_now (in_timestamp n) now \<rparr>)
                 (filter (\<lambda>n. truthy (in_text n)) ns)"
proof -
  from update_found[OF assms(1,3)] obtain q' where
    q': "qs' = saveQuotation qs q'" "q_id q' = i"
        "q_notes q' = mergeNotes now userName (q_notes q) (u_notes body)"
    by blast
  have "findQuotation qs' i = Some q'"
    using q'(1,2) assms(1) by (simp add: findQuotation_saveQuotation)
  moreover have "q_notes q' =
               q_notes q @
               map (\<lambda>n. \<lparr> note_text = in_text n,
                           note_author = author_of (in_author n) userName,
                           note_timestamp = time_or_now (in_timestamp n) now \<rparr>)
                 (filter (\<lambda>n. truthy (in_text n)) ns)"
    using q'(3) assms(2) by (simp add: mergeNotes_def)
  ultimately show ?thesis by blast
qed

theorem update_appends_notes_with_text_witness:
  "\<exists>q'. findQuotation
           (snd (update 2000 (Val ''Ravi'') [quotation42] (ObjectId 1)
              (notes_body [\<lparr> in_text = Val ''second call'', in_author = Undefined,
                              in_timestamp = Undefined \<rparr>,
                           \<lparr> in_text = Val [], in_author = Val ''Asha'',
                              in_timestamp = Val 1500 \<rparr>])))
           (ObjectId 1) = Some q'
     \<and> q_notes q' =
        [\<lparr> note_text = Val ''first call'', note_author = ''Asha'', note_timestamp = 1000 \<rparr>,
         \<lparr> note_text = Val ''second call'', note_author = ''Ravi'', note_timestamp = 2000 \<rparr>]"
proof -
  let ?ns = "[\<lparr> in_text = Val ''second call'', in_author = Undefined,
                 in_timestamp = Undefined \<rparr>,
              \<lparr> in_text = Val [], in_author = Val ''Asha'', in_timestamp = Val 1500 \<rparr>]"
  let ?r = "update 2000 (Val ''Ravi'') [quotation42] (ObjectId 1) (notes_body ?ns)"
  have f: "findQuotation [quotation42] (ObjectId 1) = Some quotation42"
    by code_simp
  have n: "u_notes (notes_body ?ns) = Val ?ns"
    by (simp add: notes_body_def)
  have "fst ?r = 200"
    by code_simp
  then have u: "?r = (200, snd ?r)"
    by (metis prod.collapse)
  have e: "q_notes quotation42 @
           map (\<lambda>n. \<lparr> note_text = in_text n,
                       note_author = author_of (in_author n) (Val ''Ravi''),
                       note_timestamp = time_or_now (in_timestamp n) 2000 \<rparr>)
             (filter (\<lambda>n. truthy (in_text n)) ?ns)
         = [\<lparr> note_text = Val ''first call'', note_author = ''Asha'', note_timestamp = 1000 \<rparr>,
            \<lparr> note_text = Val ''second call'', note_author = ''Ravi'', note_timestamp = 2000 \<rparr>]"
    by code_simp
  from update_appends_notes_with_text[OF f n u] show ?thesis
    unfolding e .
qed

section \<open>Follow-ups addressed beyond the end\<close>

lemma elementAt_beyond: "length xs \<le> index \<Longrightarrow> elementAt xs index = None"
  by (simp add: elementAt_def)

text \<open>
  C8. An update or a delete of a follow-up at an index at or beyond the length of the
  sequence answers 404 and leaves the collection, and so the follow-ups of the
  addressed quotation or account, as they were. This holds for the two handlers of the
  quotation controller and the two of the account controller.
\<close>

theorem follow_up_beyond_end_not_found:
  "(findQuotation qs i = Some q \<and> length (q_followUps q) \<le> index
      \<longrightarrow> updateFollowUp qs i index date note st = (404, qs)
          \<and> deleteFollowUp qs i index = (404, qs))
   \<and> (find (\<lambda>a. a_id a = j) accounts = Some a \<and> length (followUps a) \<le> index
      \<longrightarrow> updateFollowUp_account accounts j index date note st = (404, accounts)
          \<and> deleteFollowUp_account accounts j index = (404, accounts))"
  by (simp add: updateFollowUp_def deleteFollowUp_def updateFollowUp_account_def
      deleteFollowUp_account_def elementAt_beyond)

theorem follow_up_beyond_end_not_found_witness:
  "updateFollowUp [quotation42] (ObjectId 1) 1 (Val ''2025-02-01'') (Val ''visit'') Undefined
     = (404, [quotation42])
   \<and> deleteFollowUp [quotation42] (ObjectId 1) 1 = (404, [quotation42])
   \<and> updateFollowUp_account [acme] (ObjectId 1) 3 (Val ''2025-02-01'') (Val ''visit'')
        (Val ''completed'') = (404, [acme])
   \<and> deleteFollowUp_account [acme] (ObjectId 1) 3 = (404, [acme])"
proof -
  have q: "findQuotation [quotation42] (ObjectId 1) = Some quotation42
           \<and> length (q_followUps quotation42) \<le> 1"
    by code_simp
  have a: "find (\<lambda>a. a_id a = ObjectId 1) [acme] = Some acme \<and> length (followUps acme) \<le> 3"
    by code_simp
  from follow_up_beyond_end_not_found
         [of "[quotation42]" "ObjectId 1" quotation42 1 "Val ''2025-02-01''" "Val ''visit''"
             Undefined "ObjectId 1" "[acme]" acme]
       q
  have 1: "updateFollowUp [quotation42] (ObjectId 1) 1 (Val ''2025-02-01'') (Val ''visit'')
             Undefined = (404, [quotation42])
           \<and> deleteFollowUp [quotation42] (ObjectId 1) 1 = (404, [quotation42])"
    by blast
  from follow_up_beyond_end_not_found
         [of "[]" "ObjectId 1" quotation42 3 "Val ''2025-02-01''" "Val ''visit''"
             "Val ''completed''" "ObjectId 1" "[acme]" acme]
       a
  have 2: "updateFollowUp_account [acme] (ObjectId 1) 3 (Val ''2025-02-01'') (Val ''visit'')
             (Val ''completed'') = (404, [acme])
           \<and> deleteFollowUp_account [acme] (ObjectId 1) 3 = (404, [acme])"
    by blast
  from 1 2 show ?thesis by blast
qed

text \<open>Inside the sequence the same requests answer 200 and change the element addressed.\<close>

lemma follow_up_inside:
  "map q_followUps (snd (deleteFollowUp [quotation42] (ObjectId 1) 0)) = [[]]
   \<and> fst (deleteFollowUp [quotation42] (ObjectId 1) 0) = 200
   \<and> fst (updateFollowUp_account [acme] (ObjectId 1) 0 (Val ''2025-02-01'') (Val ''visit'')
        (Val ''completed'')) = 200"
  by code_simp

section \<open>Business accounts: the customer flag\<close>

text \<open>Neither handler writes the flag: a created account carries none, and an update
  leaves every stored flag as it is.\<close>

lemma create_stores_no_flag:
  assumes "create_account us accounts newId data = Some (Reply 201, accounts')"
  shows "\<exists>a. accounts' = accounts @ [a] \<and> isCustomer a = Undefined"
  using assms
  by (auto simp: create_account_def Let_def split: if_splits compiled.splits option.splits)

lemma find_replaced_account:
  "find (\<lambda>a. a_id a = i) accounts = Some a \<Longrightarrow> a_id a' = i
   \<Longrightarrow> find (\<lambda>a. a_id a = i) (map (\<lambda>r. if a_id r = i then a' else r) accounts) = Some a'"
  by (induction accounts) (auto split: if_splits)

lemma update_keeps_flag:
  assumes "update_account accounts i data = (200, accounts')"
    and "find (\<lambda>a. a_id a = i) accounts = Some a"
  shows "\<exists>a'. find (\<lambda>a. a_id a = i) accounts' = Some a'
             \<and> isCustomer a' = isCustomer a
             \<and> status a' = toUse (b_status data) (status a)"
proof -
  have i: "a_id a = i"
    using assms(2) by (auto simp: find_Some_iff)
  let ?u = "a\<lparr> businessName := setString (b_businessName data) (businessName a),
              contactName := setString (b_contactName data) (contactName a),
              contactNumber := setString (b_contactNumber data) (contactNumber a),
              status := toUse (b_status data) (status a),
              assignedTo := toUse (b_assignedTo data) (assignedTo a) \<rparr>"
  have "accounts' = map (\<lambda>r. if a_id r = i then ?u else r) accounts"
    using assms by (auto simp: update_account_def Let_def split: if_splits)
  then have "find (\<lambda>a. a_id a = i) accounts' = Some ?u"
    using find_replaced_account[OF assms(2), of ?u] i by simp
  then show ?thesis by simp
qed

text \<open>
  C6 at two concrete requests. A create with status \<open>Customer\<close> into an empty collection
  answers 201; the handler computed \<open>data.isCustomer = true\<close>, and the document stored
  has status \<open>Customer\<close> and no \<open>isCustomer\<close>. An update with status \<open>Customer\<close> of an
  account stored with status \<open>Active\<close> and the flag \<open>false\<close> answers 200; afterwards the
  status is \<open>Customer\<close> and the flag is still \<open>false\<close>.
\<close>

theorem customer_status_stored_without_flag:
  "create_account [] [] (ObjectId 3)
      \<lparr> b_businessName = Val ''Mega Lifts'', b_contactName = Val ''Bala'',
        b_contactNumber = Val ''98401'', b_status = Val ''Customer'',
        b_assignedTo = Undefined \<rparr>
     = Some (Reply 201,
             [\<lparr> a_id = ObjectId 3, businessName = ''Mega Lifts'', contactName = ''Bala'',
                contactNumber = ''98401'', status = Val ''Customer'', isCustomer = Undefined,
                assignedTo = Undefined, followUps = [] \<rparr>])
   \<and> data_isCustomer
        \<lparr> b_businessName = Val ''Mega Lifts'', b_contactName = Val ''Bala'',
          b_contactNumber = Val ''98401'', b_status = Val ''Customer'',
          b_assignedTo = Undefined \<rparr> = True
   \<and> update_account [acme \<lparr> status := Val ''Active'', isCustomer := Val False \<rparr>] (ObjectId 1)
        \<lparr> b_businessName = Undefined, b_contactName = Undefined, b_contactNumber = Undefined,
          b_status = Val ''Customer'', b_assignedTo = Undefined \<rparr>
     = (200, [acme \<lparr> isCustomer := Val False \<rparr>])
   \<and> status (acme \<lparr> isCustomer := Val False \<rparr>) = Val ''Customer''
   \<and> isCustomer (acme \<lparr> isCustomer := Val False \<rparr>) = Val False"
  by code_simp

section \<open>Business accounts: the duplicate check\<close>

text \<open>
  C7 at a concrete request. The account \<open>Acme (India)\<close> is stored, assigned to Ravi. A
  create for \<open>ACME (INDIA)\<close>, the same name in another case, builds the pattern
  \<open>^ACME (INDIA)$\<close>, whose parentheses are a group: it matches \<open>acme india\<close> and not the
  stored name. No duplicate is found, the answer is 201 and a second account is stored.
\<close>

theorem create_same_name_other_case_stored:
  "create_account [ravi] [acme] (ObjectId 2)
      \<lparr> b_businessName = Val ''ACME (INDIA)'', b_contactName = Val ''Bala'',
        b_contactNumber = Val ''98401'', b_status = Undefined, b_assignedTo = Undefined \<rparr>
     = Some (Reply 201,
             [acme,
              \<lparr> a_id = ObjectId 2, businessName = ''ACME (INDIA)'', contactName = ''Bala'',
                contactNumber = ''98401'', status = Val ''Active'', isCustomer = Undefined,
                assignedTo = Undefined, followUps = [] \<rparr>])
   \<and> map toUpperCase (businessName acme) = map toUpperCase ''ACME (INDIA)''"
  by code_simp

text \<open>
  Where the name has no pattern syntax in it (letters, digits and spaces), the check
  does what the claim says: a stored name equal up to case is found, the answer is 409
  with the assigned user's name in the message, and nothing is stored.
\<close>

lemma compile_plain: "list_all plain n \<Longrightarrow> compile 0 n = Pattern (map Lit n)"
proof (induction n)
  case Nil
  then show ?case by simp
next
  case (Cons c cs)
  then have "plain c" by simp
  then have "c \<noteq> CHR ''(''" "c \<noteq> CHR '')''" "c \<noteq> CHR ''.''" "c \<noteq> CHR 0x5C"
    "c \<notin> set ''*+?|[]{}^$''"
    by (auto simp: plain_def)
  with Cons show ?case by simp
qed

lemma test_literals: "test (map Lit n) s = (map toUpperCase n = map toUpperCase s)"
  unfolding test_def
proof (induction n arbitrary: s)
  case Nil
  then show ?case by auto
next
  case (Cons c cs)
  then show ?case by (cases s) auto
qed

lemma plain_printable: "list_all plain n \<Longrightarrow> printable n"
  by (auto simp: printable_def plain_def list_all_iff)

lemma create_plain_duplicate_conflict:
  assumes "list_all plain n" and "e \<in> set accounts"
    and "map toUpperCase (businessName e) = map toUpperCase n"
    and "list_all (\<lambda>a. printable (businessName a)) accounts"
  shows "\<exists>x. x \<in> set accounts \<and> map toUpperCase (businessName x) = map toUpperCase n
           \<and> create_account us accounts newId (data\<lparr> b_businessName := Val n \<rparr>)
              = Some (Conflict (conflictMessage (populateAssignedTo us (assignedTo x)))
                        (a_id x) (populateAssignedTo us (assignedTo x)), accounts)"
proof -
  have "find (\<lambda>a. test (map Lit n) (businessName a)) accounts \<noteq> None"
    using assms(2,3) by (auto simp: find_None_iff test_literals)
  then obtain x where x: "find (\<lambda>a. test (map Lit n) (businessName a)) accounts = Some x"
    by blast
  then have "x \<in> set accounts" "map toUpperCase (businessName x) = map toUpperCase n"
    by (auto simp: find_Some_iff test_literals)
  moreover have "create_account us accounts newId (data\<lparr> b_businessName := Val n \<rparr>)
              = Some (Conflict (conflictMessage (populateAssignedTo us (assignedTo x)))
                        (a_id x) (populateAssignedTo us (assignedTo x)), accounts)"
    using x assms(1,4) plain_printable[OF assms(1)]
    by (simp add: create_account_def template_def compile_plain Let_def)
  ultimately show ?thesis by blast
qed

section \<open>Transfer of a user\<close>

lemma findUser_saveTeam: "findUser (saveTeam S t) i = findUser S i"
  by (cases i) (simp_all add: findUser_def saveTeam_def)

lemma find_user_replaced:
  assumes "\<And>u. u_id (f u) = u_id u"
  shows "find (\<lambda>u. u_id u = k) us = Some usr
   \<Longrightarrow> find (\<lambda>u. u_id u = k) (map (\<lambda>u. if u_id u = k then f u else u) us) = Some (f usr)"
  using assms by (induction us) (auto split: if_splits)

lemma findUser_updated:
  assumes "findUser S (Some userId) = Some usr"
  shows "findUser (updateUserTeamAndDepartmentAndZone S userId t d z) (Some userId)
         = Some (usr\<lparr> team := t, department := d, zone := z \<rparr>)"
  using assms
    find_user_replaced[of "\<lambda>u. u\<lparr> team := t, department := d, zone := z \<rparr>" userId "users S" usr]
  by (simp add: findUser_def updateUserTeamAndDepartmentAndZone_def)

text \<open>On every path that answers 400 or 404 the users are as they were.\<close>

lemma transfer_rejected_users_unchanged:
  assumes "transferUser S userId body = (c, S')" and "c \<noteq> 200"
  shows "users S' = users S"
  using assms
  by (auto simp: transferUser_def Let_def saveTeam_def split: option.splits if_splits)

text \<open>
  C4 at a concrete request. Asha leads team 10 and is one of its two members. A transfer
  to team 99, which does not exist, answers 400; by then step 1 has saved team 10
  without her: its members are Binod alone and it has no leader. The users are as they
  were, so Asha's document still names team 10.
\<close>

theorem transfer_to_missing_team_changes_original_team:
  "transferUser north (ObjectId 1)
      \<lparr> newDepartmentId = None, newTeamId = Some (ObjectId 99), newZoneId = None \<rparr>
     = (400,
        north \<lparr> teams :=
          [\<lparr> t_id = ObjectId 10, t_name = Some ''North'', t_department = Some (ObjectId 20),
             teamLeader = None, members = [ObjectId 2] \<rparr>,
           \<lparr> t_id = ObjectId 11, t_name = Some ''South'', t_department = Some (ObjectId 20),
             teamLeader = None, members = [] \<rparr>] \<rparr>)
   \<and> map members (teams north) = [[ObjectId 1, ObjectId 2], []]
   \<and> map teamLeader (teams north) = [Some (ObjectId 1), None]"
  by code_simp

text \<open>
  C10. For a user that exists: when \<open>newTeamId\<close> is missing or \<open>null\<close> the transfer
  answers 200 and the user's team is \<open>null\<close>, the department is the \<open>newDepartmentId\<close>
  sent (\<open>null\<close> when missing) and the zone is the \<open>newZoneId\<close> sent (\<open>null\<close> when
  missing); and whenever a transfer answers 200 the user's zone is the \<open>newZoneId\<close> sent.
  So a body with none of the three fields clears the triple, whatever team the user
  had.
\<close>

theorem transfer_sets_triple_from_body:
  assumes "findUser S (Some userId) = Some usr"
  shows "(newTeamId body = None \<longrightarrow>
            (\<exists>S'. transferUser S userId body = (200, S')
                \<and> findUser S' (Some userId)
                    = Some (usr\<lparr> team := None, department := newDepartmentId body,
                                   zone := newZoneId body \<rparr>)))
         \<and> (\<forall>S'. transferUser S userId body = (200, S') \<longrightarrow>
               (\<exists>u'. findUser S' (Some userId) = Some u' \<and> zone u' = newZoneId body))"
proof (intro conjI impI allI)
  assume n: "newTeamId body = None"
  define S1 where "S1 = (case team usr of
                     Some ot \<Rightarrow>
                       if team usr \<noteq> newTeamId body then
                         (case findTeam S ot of
                            Some originalTeam \<Rightarrow> saveTeam S (unassign userId originalTeam)
                          | None \<Rightarrow> S)
                       else S
                   | None \<Rightarrow> S)"
  have u1: "findUser S1 (Some userId) = Some usr"
    using assms by (auto simp: S1_def findUser_saveTeam split: option.splits)
  have "transferUser S userId body
        = (200, updateUserTeamAndDepartmentAndZone S1 userId None (newDepartmentId body)
                  (newZoneId body))"
    using assms n by (simp add: transferUser_def S1_def Let_def)
  then show "\<exists>S'. transferUser S userId body = (200, S')
                \<and> findUser S' (Some userId)
                    = Some (usr\<lparr> team := None, department := newDepartmentId body,
                                   zone := newZoneId body \<rparr>)"
    using findUser_updated[OF u1] by simp
next
  fix S'
  assume t: "transferUser S userId body = (200, S')"
  define S1 where "S1 = (case team usr of
                     Some ot \<Rightarrow>
                       if team usr \<noteq> newTeamId body then
                         (case findTeam S ot of
                            Some originalTeam \<Rightarrow> saveTeam S (unassign userId originalTeam)
                          | None \<Rightarrow> S)
                       else S
                   | None \<Rightarrow> S)"
  have u1: "findUser S1 (Some userId) = Some usr"
    using assms by (auto simp: S1_def findUser_saveTeam split: option.splits)
  have "\<exists>S2 tm dp. findUser S2 (Some userId) = Some usr
          \<and> S' = updateUserTeamAndDepartmentAndZone S2 userId tm dp (newZoneId body)"
  proof (cases "newTeamId body")
    case None
    then have "S' = updateUserTeamAndDepartmentAndZone S1 userId None (newDepartmentId body)
                  (newZoneId body)"
      using t assms by (simp add: transferUser_def S1_def Let_def)
    with u1 show ?thesis by blast
  next
    case (Some nt)
    then obtain newTeam where nt: "findTeam S1 nt = Some newTeam"
      using t assms by (auto simp: transferUser_def S1_def Let_def split: option.splits)
    then have "S' = updateUserTeamAndDepartmentAndZone (saveTeam S1 (assign usr newTeam))
                           userId (newTeamId body) (t_department newTeam) (newZoneId body)"
      using t assms Some by (simp add: transferUser_def S1_def Let_def)
    moreover have "findUser (saveTeam S1 (assign usr newTeam)) (Some userId) = Some usr"
      using u1 by (simp add: findUser_saveTeam)
    ultimately show ?thesis by blast
  qed
  then obtain S2 tm dp where s2: "findUser S2 (Some userId) = Some usr"
      "S' = updateUserTeamAndDepartmentAndZone S2 userId tm dp (newZoneId body)"
    by blast
  show "\<exists>u'. findUser S' (Some userId) = Some u' \<and> zone u' = newZoneId body"
    using findUser_updated[OF s2(1), of tm dp "newZoneId body"] s2(2) by simp
qed

theorem transfer_sets_triple_from_body_witness:
  "(\<exists>S'. transferUser north (ObjectId 1)
           \<lparr> newDepartmentId = None, newTeamId = None, newZoneId = None \<rparr> = (200, S')
        \<and> findUser S' (Some (ObjectId 1))
            = Some \<lparr> u_id = ObjectId 1, u_name = ''Asha'', role = ''Team Leader'',
                     team = None, department = None, zone = None \<rparr>)
   \<and> (\<exists>u'. findUser (snd (transferUser north (ObjectId 1)
                \<lparr> newDepartmentId = None, newTeamId = Some (ObjectId 11),
                  newZoneId = Some (ObjectId 31) \<rparr>)) (Some (ObjectId 1)) = Some u'
          \<and> zone u' = Some (ObjectId 31))"
proof -
  let ?asha = "\<lparr> u_id = ObjectId 1, u_name = ''Asha'', role = ''Team Leader'',
            team = Some (ObjectId 10), department = Some (ObjectId 20),
            zone = Some (ObjectId 30) \<rparr>"
  let ?b0 = "\<lparr> newDepartmentId = None, newTeamId = None, newZoneId = None \<rparr>"
  let ?b1 = "\<lparr> newDepartmentId = None, newTeamId = Some (ObjectId 11),
               newZoneId = Some (ObjectId 31) \<rparr>"
  have f: "findUser north (Some (ObjectId 1)) = Some ?asha"
    by code_simp
  have "fst (transferUser north (ObjectId 1) ?b1) = 200"
    by code_simp
  then have r: "transferUser north (ObjectId 1) ?b1
                = (200, snd (transferUser north (ObjectId 1) ?b1))"
    by (metis prod.collapse)
  from transfer_sets_triple_from_body[OF f, of ?b0]
  have 1: "\<exists>S'. transferUser north (ObjectId 1) ?b0 = (200, S')
        \<and> findUser S' (Some (ObjectId 1))
            = Some \<lparr> u_id = ObjectId 1, u_name = ''Asha'', role = ''Team Leader'',
                     team = None, department = None, zone = None \<rparr>"
    by simp
  from transfer_sets_triple_from_body[OF f, of ?b1] r
  have 2: "\<exists>u'. findUser (snd (transferUser north (ObjectId 1) ?b1)) (Some (ObjectId 1)) = Some u'
          \<and> zone u' = Some (ObjectId 31)"
    by simp
  from 1 2 show ?thesis by blast
qed

section \<open>One team per leader\<close>

lemma leaderRejected_400:
  assumes "t \<in> set (teams S)" and "teamLeader t = Some l" and "Some (t_id t) \<noteq> except"
  shows "leaderRejected S l except = Some 400"
proof -
  have "find (\<lambda>t. teamLeader t = Some l \<and> Some (t_id t) \<noteq> except) (teams S) \<noteq> None"
    using assms by (auto simp: find_None_iff)
  then show ?thesis
    by (auto simp: leaderRejected_def split: option.splits)
qed

text \<open>
  C5. When the body of a create-team or update-team request names as \<open>teamLeader\<close> a
  user who leads a team of the store (for an update: a team other than the one being
  updated, which that user does not lead), the request is answered with 400 and the
  store is unchanged: no team and no user document is written.
\<close>

theorem leader_of_another_team_rejected:
  assumes "b_teamLeader body = Some l" and "t \<in> set (teams S)" and "teamLeader t = Some l"
  shows "createTeam S newId body = (400, S)
         \<and> (findTeam S teamId = Some orig \<and> t_id t \<noteq> teamId \<and> teamLeader orig \<noteq> Some l
              \<longrightarrow> updateTeam S teamId body = (400, S))"
proof (intro conjI impI)
  have "leaderRejected S l None = Some 400"
    using assms(2,3) by (simp add: leaderRejected_400)
  then show "createTeam S newId body = (400, S)"
    using assms(1) by (simp add: createTeam_def Let_def split: option.splits)
next
  assume h: "findTeam S teamId = Some orig \<and> t_id t \<noteq> teamId \<and> teamLeader orig \<noteq> Some l"
  then have r: "leaderRejected S l (Some teamId) = Some 400"
    using assms(2,3) by (simp add: leaderRejected_400)
  have ne: "Some l \<noteq> teamLeader orig"
    using h by auto
  have f: "findTeam S teamId = Some orig"
    using h by simp
  show "updateTeam S teamId body = (400, S)"
    unfolding updateTeam_def Let_def f assms(1)
    using r ne by simp
qed

theorem leader_of_another_team_rejected_witness:
  "createTeam north (ObjectId 12)
      \<lparr> b_name = Some ''East'', b_department = Some (ObjectId 20),
        b_teamLeader = Some (ObjectId 1), b_members = Some [ObjectId 2] \<rparr> = (400, north)
   \<and> updateTeam north (ObjectId 11)
      \<lparr> b_name = Some ''East'', b_department = Some (ObjectId 20),
        b_teamLeader = Some (ObjectId 1), b_members = Some [ObjectId 2] \<rparr> = (400, north)"
proof -
  let ?t = "\<lparr> t_id = ObjectId 10, t_name = Some ''North'', t_department = Some (ObjectId 20),
            teamLeader = Some (ObjectId 1), members = [ObjectId 1, ObjectId 2] \<rparr>"
  let ?o = "\<lparr> t_id = ObjectId 11, t_name = Some ''South'', t_department = Some (ObjectId 20),
            teamLeader = None, members = [] \<rparr>"
  let ?b = "\<lparr> b_name = Some ''East'', b_department = Some (ObjectId 20),
        b_teamLeader = Some (ObjectId 1), b_members = Some [ObjectId 2] \<rparr>"
  have a: "b_teamLeader ?b = Some (ObjectId 1)" by simp
  have b: "?t \<in> set (teams north)" by (simp add: north_def)
  have c: "teamLeader ?t = Some (ObjectId 1)" by simp
  have d: "findTeam north (ObjectId 11) = Some ?o \<and> t_id ?t \<noteq> ObjectId 11
           \<and> teamLeader ?o \<noteq> Some (ObjectId 1)"
    by (simp add: findTeam_def north_def)
  from leader_of_another_team_rejected[OF a b c, of "ObjectId 12" "ObjectId 11" ?o] d
  show ?thesis by blast
qed

text \<open>The same two requests naming a user who leads no team are carried out.\<close>

lemma free_leader_accepted:
  "fst (updateTeam north (ObjectId 11)
      \<lparr> b_name = Some ''South'', b_department = Some (ObjectId 20),
        b_teamLeader = None, b_members = Some [ObjectId 2] \<rparr>) = 200
   \<and> fst (createTeam north (ObjectId 12)
      \<lparr> b_name = Some ''East'', b_department = Some (ObjectId 20),
        b_teamLeader = None, b_members = Some [ObjectId 2] \<rparr>) = 201"
  by code_simp

end
